theory Spec2Isabelle
  imports Main
begin

section \<open>The host ABI boundary (package \<open>internal/abi/fastly\<close>)\<close>

text \<open>
  Both packages call into \<open>internal/abi/fastly\<close>, which is not part of the sources at
  hand. What the wrappers use of it is modelled here: the status codes they compare
  against, the error values the ABI hands back, \<open>IsFastlyError\<close>, and the ABI calls
  themselves, which are parameters of every wrapper.
\<close>

text \<open>
  Modelled from the spec: the host status type \<open>fastly.FastlyStatus\<close>. The four
  statuses the wrappers name, the zero value, and any other status by its number.
\<close>

datatype FastlyStatus =
    FastlyStatusOK
  | FastlyStatusInval
  | FastlyStatusBadf
  | FastlyStatusUnsupported
  | FastlyStatusNone
  | FastlyStatusCode nat

text \<open>
  Go \<open>error\<close> values. \<open>ErrorsNew m\<close> is \<open>errors.New(m)\<close>; \<open>Errorf_w e st\<close> is
  \<open>fmt.Errorf("%w (%s)", e, st)\<close>, an error that wraps \<open>e\<close>; \<open>FastlyError st\<close> is
  a host failure carrying a status; \<open>TransportError m\<close> is any other failure of the
  ABI call, with its text. Go compares sentinel errors by identity; here two
  \<open>errors.New\<close> values are equal when their texts are, and the sentinels of both
  packages and \<open>io.EOF\<close> all have different texts.
\<close>

datatype error =
    ErrorsNew string
  | Errorf_w error FastlyStatus
  | FastlyError FastlyStatus
  | TransportError string

text \<open>
  Modelled from the spec: \<open>fastly.IsFastlyError\<close>, which tries to read an error as a
  host status. The status returned along \<open>False\<close> is the zero value; no caller looks
  at it.
\<close>

fun IsFastlyError :: "error \<Rightarrow> FastlyStatus \<times> bool" where
  "IsFastlyError (FastlyError st) = (st, True)"
| "IsFastlyError e = (FastlyStatusOK, False)"

text \<open>
  The texts the ABI package produces (the \<open>String\<close> method of a status, the
  \<open>Error\<close> method of a host status error) are outside the sources and are parameters
  of the \<open>Error\<close> method below.
\<close>

record abi_text =
  FastlyStatus_String :: "FastlyStatus \<Rightarrow> string"
  FastlyError_Error :: "FastlyStatus \<Rightarrow> string"

fun Error :: "abi_text \<Rightarrow> error \<Rightarrow> string" where
  "Error T (ErrorsNew m) = m"
| "Error T (Errorf_w e st) = Error T e @ '' ('' @ FastlyStatus_String T st @ '')''"
| "Error T (FastlyError st) = FastlyError_Error T st"
| "Error T (TransportError m) = m"

text \<open>\<open>errors.Is\<close>: the error itself or anything it wraps.\<close>

fun errors_Is :: "error \<Rightarrow> error \<Rightarrow> bool" where
  "errors_Is (Errorf_w e st) target = (Errorf_w e st = target \<or> errors_Is e target)"
| "errors_Is e target = (e = target)"

text \<open>A method called on a nil receiver that dereferences it panics.\<close>

datatype 'a outcome = Return 'a | Panic

section \<open>Byte streams (\<open>io.Reader\<close>, \<open>io.ReadAll\<close>)\<close>

type_synonym bytes = string

text \<open>
  A finite, single-pass stream: \<open>script\<close> holds what the coming \<open>Read\<close> calls return
  (data, an error, or both); once it is used up every \<open>Read\<close> returns \<open>io.EOF\<close>.
  \<open>reads\<close> counts the \<open>Read\<close> calls made so far.
\<close>

record reader =
  script :: "(bytes \<times> error option) list"
  reads :: nat

definition io_EOF :: error where
  "io_EOF = ErrorsNew ''EOF''"

definition reader_Read :: "reader \<Rightarrow> (bytes \<times> error option) \<times> reader" where
  "reader_Read r =
     (case script r of
        [] \<Rightarrow> (([], Some io_EOF), r\<lparr>reads := reads r + 1\<rparr>)
      | x # xs \<Rightarrow> (x, r\<lparr>script := xs, reads := reads r + 1\<rparr>))"

text \<open>\<open>strings.NewReader\<close>: the whole string in one read, then \<open>io.EOF\<close>.\<close>

definition NewReader :: "bytes \<Rightarrow> reader" where
  "NewReader v = \<lparr>script = [(v, None)], reads = 0\<rparr>"

text \<open>
  \<open>io.ReadAll\<close>: read until an error; \<open>io.EOF\<close> ends the stream without error, any
  other error is returned with the bytes read so far.
\<close>

function io_ReadAll :: "reader \<Rightarrow> bytes \<Rightarrow> (bytes \<times> error option) \<times> reader" where
  "io_ReadAll r b =
     (case reader_Read r of
        ((c, None), r') \<Rightarrow> io_ReadAll r' (b @ c)
      | ((c, Some err), r') \<Rightarrow> ((b @ c, if err = io_EOF then None else Some err), r'))"
  by pat_completeness auto
termination
  by (relation "measure (\<lambda>(r, b). length (script r))")
     (auto simp: reader_Read_def split: list.splits)

declare io_ReadAll.simps [simp del]

section \<open>Package \<open>kvstore\<close>\<close>

definition kvstore_ErrStoreNotFound :: error where
  "kvstore_ErrStoreNotFound = ErrorsNew ''kvstore: store not found''"

definition kvstore_ErrKeyNotFound :: error where
  "kvstore_ErrKeyNotFound = ErrorsNew ''kvstore: key not found''"

definition kvstore_ErrInvalidKey :: error where
  "kvstore_ErrInvalidKey = ErrorsNew ''kvstore: invalid key''"

definition kvstore_ErrUnexpected :: error where
  "kvstore_ErrUnexpected = ErrorsNew ''kvstore: unexpected error''"

text \<open>
  The struct \<open>Entry\<close>; its field \<open>s\<close> is \<open>Entry_s\<close> here. \<open>String\<close> returns the
  string and the Entry as the call leaves it.
\<close>

record Entry =
  Reader :: reader
  validString :: bool
  Entry_s :: string

definition Entry_String :: "Entry \<Rightarrow> string \<times> Entry" where
  "Entry_String e =
     (if validString e then (Entry_s e, e)
      else
        (case io_ReadAll (Reader e) [] of
           ((b, Some err), r') \<Rightarrow> ('''', e\<lparr>Reader := r'\<rparr>)
         | ((b, None), r') \<Rightarrow> (b, e\<lparr>Reader := r', validString := True, Entry_s := b\<rparr>)))"

text \<open>The handle \<open>*fastly.KVStore\<close> is opaque.\<close>

type_synonym KVStore = nat

record kvstore_Store =
  kvstore :: KVStore

text \<open>
  The ABI calls of the KV store, over a host state \<open>'h\<close>. A call returns \<open>Inl err\<close>
  for a non-nil error.
\<close>

record 'h kv_abi =
  OpenKVStore :: "string \<Rightarrow> 'h \<Rightarrow> (error + KVStore) \<times> 'h"
  KVStore_Lookup :: "KVStore \<Rightarrow> string \<Rightarrow> 'h \<Rightarrow> (error + reader) \<times> 'h"
  KVStore_Insert :: "KVStore \<Rightarrow> string \<Rightarrow> reader \<Rightarrow> 'h \<Rightarrow> error option \<times> 'h"
  KVStore_Delete :: "KVStore \<Rightarrow> string \<Rightarrow> 'h \<Rightarrow> error option \<times> 'h"

definition kvstore_Open ::
  "'h kv_abi \<Rightarrow> string \<Rightarrow> 'h \<Rightarrow> (kvstore_Store option \<times> error option) \<times> 'h" where
  "kvstore_Open F name h =
     (case OpenKVStore F name h of
        (Inl err, h') \<Rightarrow>
          (let (status, ok) = IsFastlyError err in
           if ok \<and> status = FastlyStatusInval then ((None, Some kvstore_ErrStoreNotFound), h')
           else if ok then ((None, Some (Errorf_w kvstore_ErrUnexpected status)), h')
           else ((None, Some err), h'))
      | (Inr o', h') \<Rightarrow> ((Some \<lparr>kvstore = o'\<rparr>, None), h'))"

definition kvstore_Lookup ::
  "'h kv_abi \<Rightarrow> kvstore_Store option \<Rightarrow> string \<Rightarrow> 'h
     \<Rightarrow> (Entry option \<times> error option) outcome \<times> 'h" where
  "kvstore_Lookup F s key h =
     (case s of
        None \<Rightarrow> (Panic, h)
      | Some st \<Rightarrow>
          (case KVStore_Lookup F (kvstore st) key h of
             (Inl err, h') \<Rightarrow>
               (let (status, ok) = IsFastlyError err in
                if ok \<and> status = FastlyStatusNone
                  then (Return (None, Some kvstore_ErrKeyNotFound), h')
                else if ok \<and> status = FastlyStatusInval
                  then (Return (None, Some kvstore_ErrInvalidKey), h')
                else if ok
                  then (Return (None, Some (Errorf_w kvstore_ErrUnexpected status)), h')
                else (Return (None, Some err), h'))
           | (Inr val, h') \<Rightarrow>
               (Return (Some \<lparr>Reader = val, validString = False, Entry_s = ''''\<rparr>, None), h')))"

definition kvstore_Insert ::
  "'h kv_abi \<Rightarrow> kvstore_Store option \<Rightarrow> string \<Rightarrow> reader \<Rightarrow> 'h
     \<Rightarrow> error option outcome \<times> 'h" where
  "kvstore_Insert F s key val h =
     (case s of
        None \<Rightarrow> (Panic, h)
      | Some st \<Rightarrow>
          (case KVStore_Insert F (kvstore st) key val h of
             (Some err, h') \<Rightarrow>
               (let (status, ok) = IsFastlyError err in
                if ok \<and> status = FastlyStatusInval
                  then (Return (Some kvstore_ErrInvalidKey), h')
                else if ok
                  then (Return (Some (Errorf_w kvstore_ErrUnexpected status)), h')
                else (Return (Some err), h'))
           | (None, h') \<Rightarrow> (Return None, h')))"

definition kvstore_Delete ::
  "'h kv_abi \<Rightarrow> kvstore_Store option \<Rightarrow> string \<Rightarrow> 'h \<Rightarrow> error option outcome \<times> 'h" where
  "kvstore_Delete F s key h =
     (case s of
        None \<Rightarrow> (Panic, h)
      | Some st \<Rightarrow>
          (case KVStore_Delete F (kvstore st) key h of
             (Some err, h') \<Rightarrow>
               (let (status, ok) = IsFastlyError err in
                if ok \<and> status = FastlyStatusNone
                  then (Return (Some kvstore_ErrKeyNotFound), h')
                else if ok \<and> status = FastlyStatusInval
                  then (Return (Some kvstore_ErrInvalidKey), h')
                else if ok
                  then (Return (Some (Errorf_w kvstore_ErrUnexpected status)), h')
                else (Return (Some err), h'))
           | (None, h') \<Rightarrow> (Return None, h')))"

section \<open>Package \<open>configstore\<close>\<close>

definition configstore_ErrStoreNotFound :: error where
  "configstore_ErrStoreNotFound = ErrorsNew ''config store not found''"

definition configstore_ErrStoreNameEmpty :: error where
  "configstore_ErrStoreNameEmpty = ErrorsNew ''config store name was empty''"

definition configstore_ErrStoreNameInvalid :: error where
  "configstore_ErrStoreNameInvalid = ErrorsNew ''config store name contained invalid characters''"

definition configstore_ErrStoreNameTooLong :: error where
  "configstore_ErrStoreNameTooLong = ErrorsNew ''config store name too long''"

definition configstore_ErrKeyNotFound :: error where
  "configstore_ErrKeyNotFound = ErrorsNew ''key not found''"

text \<open>The handle \<open>*fastly.Dictionary\<close> is opaque.\<close>

type_synonym Dictionary = nat

record configstore_Store =
  abiDict :: Dictionary

record 'h dict_abi =
  OpenDictionary :: "string \<Rightarrow> 'h \<Rightarrow> (error + Dictionary) \<times> 'h"
  Dictionary_Get :: "Dictionary \<Rightarrow> string \<Rightarrow> 'h \<Rightarrow> (error + string) \<times> 'h"

definition configstore_Open ::
  "'h dict_abi \<Rightarrow> string \<Rightarrow> 'h \<Rightarrow> (configstore_Store option \<times> error option) \<times> 'h" where
  "configstore_Open F name h =
     (case OpenDictionary F name h of
        (Inl err, h') \<Rightarrow>
          (let (status, ok) = IsFastlyError err in
           if ok \<and> status = FastlyStatusBadf
             then ((None, Some configstore_ErrStoreNotFound), h')
           else if ok \<and> status = FastlyStatusNone
             then ((None, Some configstore_ErrStoreNameEmpty), h')
           else if ok \<and> status = FastlyStatusUnsupported
             then ((None, Some configstore_ErrStoreNameTooLong), h')
           else if ok \<and> status = FastlyStatusInval
             then ((None, Some configstore_ErrStoreNameInvalid), h')
           else ((None, Some err), h'))
      | (Inr d, h') \<Rightarrow> ((Some \<lparr>abiDict = d\<rparr>, None), h'))"

definition configstore_Get ::
  "'h dict_abi \<Rightarrow> configstore_Store option \<Rightarrow> string \<Rightarrow> 'h
     \<Rightarrow> (string \<times> error option) outcome \<times> 'h" where
  "configstore_Get F s key h =
     (case s of
        None \<Rightarrow> (Return ('''', Some configstore_ErrKeyNotFound), h)
      | Some st \<Rightarrow>
          (case Dictionary_Get F (abiDict st) key h of
             (Inl err, h') \<Rightarrow>
               (let (status, ok) = IsFastlyError err in
                if ok \<and> status = FastlyStatusBadf
                  then (Return ('''', Some configstore_ErrStoreNotFound), h')
                else if ok \<and> status = FastlyStatusNone
                  then (Return ('''', Some configstore_ErrKeyNotFound), h')
                else (Return ('''', Some err), h'))
           | (Inr v, h') \<Rightarrow> (Return (v, None), h')))"

section \<open>The classification scheme in the words of the specification\<close>

text \<open>
  The specification describes one algorithm: read the failure as a host status; if it
  is one, map it through the operation's table, and a status the table lacks becomes
  the unexpected error carrying the status; if it is no host status, pass the failure
  through unchanged.
\<close>

definition spec_classify :: "(FastlyStatus \<rightharpoonup> error) \<Rightarrow> error \<Rightarrow> error \<Rightarrow> error" where
  "spec_classify table unexpected err =
     (let (status, ok) = IsFastlyError err in
      if ok then (case table status of Some d \<Rightarrow> d | None \<Rightarrow> Errorf_w unexpected status)
      else err)"

text \<open>The same scheme without an unexpected error: what the table lacks passes through.\<close>

definition spec_classify_verbatim :: "(FastlyStatus \<rightharpoonup> error) \<Rightarrow> error \<Rightarrow> error" where
  "spec_classify_verbatim table err =
     (let (status, ok) = IsFastlyError err in
      if ok then (case table status of Some d \<Rightarrow> d | None \<Rightarrow> err)
      else err)"

text \<open>The per-operation tables, read off the case lists of the six operations.\<close>

definition kvstore_Open_table :: "FastlyStatus \<rightharpoonup> error" where
  "kvstore_Open_table = [FastlyStatusInval \<mapsto> kvstore_ErrStoreNotFound]"

definition kvstore_Lookup_table :: "FastlyStatus \<rightharpoonup> error" where
  "kvstore_Lookup_table =
     [FastlyStatusNone \<mapsto> kvstore_ErrKeyNotFound, FastlyStatusInval \<mapsto> kvstore_ErrInvalidKey]"

definition kvstore_Insert_table :: "FastlyStatus \<rightharpoonup> error" where
  "kvstore_Insert_table = [FastlyStatusInval \<mapsto> kvstore_ErrInvalidKey]"

definition kvstore_Delete_table :: "FastlyStatus \<rightharpoonup> error" where
  "kvstore_Delete_table =
     [FastlyStatusNone \<mapsto> kvstore_ErrKeyNotFound, FastlyStatusInval \<mapsto> kvstore_ErrInvalidKey]"

definition configstore_Open_table :: "FastlyStatus \<rightharpoonup> error" where
  "configstore_Open_table =
     [FastlyStatusBadf \<mapsto> configstore_ErrStoreNotFound,
      FastlyStatusNone \<mapsto> configstore_ErrStoreNameEmpty,
      FastlyStatusUnsupported \<mapsto> configstore_ErrStoreNameTooLong,
      FastlyStatusInval \<mapsto> configstore_ErrStoreNameInvalid]"

definition configstore_Get_table :: "FastlyStatus \<rightharpoonup> error" where
  "configstore_Get_table =
     [FastlyStatusBadf \<mapsto> configstore_ErrStoreNotFound,
      FastlyStatusNone \<mapsto> configstore_ErrKeyNotFound]"

text \<open>\<open>errors.Unwrap\<close>: the error wrapped by a \<open>%w\<close> error, nil for any other.\<close>

fun errors_Unwrap :: "error \<Rightarrow> error option" where
  "errors_Unwrap (Errorf_w e st) = Some e"
| "errors_Unwrap e = None"

section \<open>Hosts\<close>

text \<open>
  Modelled from the spec: an idealized host, one KV store held as a key/value map.
  Insert drains the given stream and stores its bytes, Lookup hands back a stream
  over the stored bytes, a missing key is reported with the status \<open>NONE\<close>.
\<close>

definition ideal_kv :: "(string \<rightharpoonup> bytes) kv_abi" where
  "ideal_kv =
     \<lparr>OpenKVStore = (\<lambda>name h. (Inr 0, h)),
      KVStore_Lookup = (\<lambda>st key h.
        case h key of
          None \<Rightarrow> (Inl (FastlyError FastlyStatusNone), h)
        | Some v \<Rightarrow> (Inr (NewReader v), h)),
      KVStore_Insert = (\<lambda>st key val h.
        case io_ReadAll val [] of
          ((b, Some err), r') \<Rightarrow> (Some err, h)
        | ((b, None), r') \<Rightarrow> (None, h(key \<mapsto> b))),
      KVStore_Delete = (\<lambda>st key h.
        case h key of
          None \<Rightarrow> (Some (FastlyError FastlyStatusNone), h)
        | Some v \<Rightarrow> (None, h(key := None)))\<rparr>"

text \<open>Hosts without state on which every call fails with the given error.\<close>

definition failing_kv :: "error \<Rightarrow> unit kv_abi" where
  "failing_kv err =
     \<lparr>OpenKVStore = (\<lambda>name h. (Inl err, h)),
      KVStore_Lookup = (\<lambda>st key h. (Inl err, h)),
      KVStore_Insert = (\<lambda>st key val h. (Some err, h)),
      KVStore_Delete = (\<lambda>st key h. (Some err, h))\<rparr>"

definition failing_dict :: "error \<Rightarrow> unit dict_abi" where
  "failing_dict err =
     \<lparr>OpenDictionary = (\<lambda>name h. (Inl err, h)),
      Dictionary_Get = (\<lambda>d key h. (Inl err, h))\<rparr>"

section \<open>Reading a stream to its end\<close>

lemma io_ReadAll_Nil:
  "script r = [] \<Longrightarrow> io_ReadAll r b = ((b, None), r\<lparr>reads := reads r + 1\<rparr>)"
  by (simp add: io_ReadAll.simps [of r b] reader_Read_def)

lemma io_ReadAll_data:
  "script r = (c, None) # xs \<Longrightarrow>
     io_ReadAll r b = io_ReadAll (r\<lparr>script := xs, reads := reads r + 1\<rparr>) (b @ c)"
  by (simp add: io_ReadAll.simps [of r b] reader_Read_def)

lemma io_ReadAll_err:
  "script r = (c, Some err) # xs \<Longrightarrow>
     io_ReadAll r b =
       ((b @ c, if err = io_EOF then None else Some err),
        r\<lparr>script := xs, reads := reads r + 1\<rparr>)"
  by (simp add: io_ReadAll.simps [of r b] reader_Read_def)

lemmas io_ReadAll_eval = io_ReadAll_Nil io_ReadAll_data io_ReadAll_err

lemma io_ReadAll_NewReader: "fst (io_ReadAll (NewReader v) b) = (b @ v, None)"
  by (simp add: NewReader_def io_ReadAll_eval)

lemma reader_Read_reads: "reader_Read r = (x, r') \<Longrightarrow> reads r' = Suc (reads r)"
  by (auto simp: reader_Read_def split: list.splits)

text \<open>Draining makes at least one \<open>Read\<close> call.\<close>

lemma io_ReadAll_reads: "reads r < reads (snd (io_ReadAll r b))"
proof (induction r b rule: io_ReadAll.induct)
  case (1 r b)
  obtain c eo r' where R: "reader_Read r = ((c, eo), r')"
    by (metis prod.exhaust)
  have S: "reads r' = Suc (reads r)"
    using reader_Read_reads [OF R] .
  show ?case
  proof (cases eo)
    case None
    with 1 R have "reads r' < reads (snd (io_ReadAll r' (b @ c)))"
      by simp
    with S R None show ?thesis
      by (simp add: io_ReadAll.simps [of r b])
  next
    case (Some err)
    with S R show ?thesis
      by (simp add: io_ReadAll.simps [of r b])
  qed
qed

lemma IsFastlyError_True: "IsFastlyError err = (status, True) \<longleftrightarrow> err = FastlyError status"
  by (cases err) auto

lemma IsFastlyError_False: "snd (IsFastlyError err) = False \<longleftrightarrow> (\<forall>status. err \<noteq> FastlyError status)"
  by (cases err) auto

lemmas kvstore_errs = kvstore_ErrStoreNotFound_def kvstore_ErrKeyNotFound_def
  kvstore_ErrInvalidKey_def kvstore_ErrUnexpected_def

lemmas configstore_errs = configstore_ErrStoreNotFound_def configstore_ErrStoreNameEmpty_def
  configstore_ErrStoreNameInvalid_def configstore_ErrStoreNameTooLong_def
  configstore_ErrKeyNotFound_def

section \<open>The buffering accessor \<open>Entry.String\<close>\<close>

text \<open>
  Claim C7, as stated: for every Entry, two calls of \<open>String\<close> return the same string
  and the second call does not read the stream. It fails on an Entry whose stream
  reports a read error on the first drain: the first call returns the empty string
  after one read, the second call reads the stream again (two more reads) and
  returns what it then finds.
\<close>

theorem Entry_String_twice_counterexample:
  "fst (Entry_String
         \<lparr>Reader = \<lparr>script = [(''ab'', Some (TransportError ''reset'')), (''cd'', None)], reads = 0\<rparr>,
          validString = False, Entry_s = ''''\<rparr>) = ''''
   \<and> reads (Reader (snd (Entry_String
         \<lparr>Reader = \<lparr>script = [(''ab'', Some (TransportError ''reset'')), (''cd'', None)], reads = 0\<rparr>,
          validString = False, Entry_s = ''''\<rparr>))) = 1
   \<and> fst (Entry_String (snd (Entry_String
         \<lparr>Reader = \<lparr>script = [(''ab'', Some (TransportError ''reset'')), (''cd'', None)], reads = 0\<rparr>,
          validString = False, Entry_s = ''''\<rparr>))) = ''cd''
   \<and> reads (Reader (snd (Entry_String (snd (Entry_String
         \<lparr>Reader = \<lparr>script = [(''ab'', Some (TransportError ''reset'')), (''cd'', None)], reads = 0\<rparr>,
          validString = False, Entry_s = ''''\<rparr>))))) = 3"
  by (simp add: Entry_String_def io_ReadAll_eval io_EOF_def)

text \<open>
  Claim C7, amended: for every Entry whose string is already cached or whose stream
  drains without a read error, a second call of \<open>String\<close> returns the same string as
  the first and leaves the Entry as the first call left it; in particular it makes no
  \<open>Read\<close> call on the stream.
\<close>

theorem Entry_String_cached:
  assumes "validString e \<or> snd (fst (io_ReadAll (Reader e) [])) = None"
  shows "Entry_String (snd (Entry_String e)) = (fst (Entry_String e), snd (Entry_String e))
         \<and> reads (Reader (snd (Entry_String (snd (Entry_String e)))))
             = reads (Reader (snd (Entry_String e)))"
proof -
  have "Entry_String (snd (Entry_String e)) = (fst (Entry_String e), snd (Entry_String e))"
    using assms by (auto simp: Entry_String_def split: prod.splits option.splits)
  then show ?thesis
    by simp
qed

theorem Entry_String_cached_witness:
  "(validString \<lparr>Reader = NewReader ''cat'', validString = False, Entry_s = ''''\<rparr>
      \<or> snd (fst (io_ReadAll
            (Reader \<lparr>Reader = NewReader ''cat'', validString = False, Entry_s = ''''\<rparr>) [])) = None)
   \<and> fst (Entry_String \<lparr>Reader = NewReader ''cat'', validString = False, Entry_s = ''''\<rparr>) = ''cat''
   \<and> Entry_String (snd (Entry_String
        \<lparr>Reader = NewReader ''cat'', validString = False, Entry_s = ''''\<rparr>))
       = (''cat'', snd (Entry_String
        \<lparr>Reader = NewReader ''cat'', validString = False, Entry_s = ''''\<rparr>))"
  using Entry_String_cached
    [of "\<lparr>Reader = NewReader ''cat'', validString = False, Entry_s = ''''\<rparr>"]
  by (simp add: Entry_String_def NewReader_def io_ReadAll_eval io_EOF_def)

text \<open>
  Claim C8: when draining the stream inside \<open>String\<close> ends with a read error,
  \<open>String\<close> returns the empty string, whatever bytes were read before the error; the
  error is dropped and the bytes read are not kept in the Entry either.
\<close>

theorem Entry_String_drain_error:
  assumes "\<not> validString e"
    and "fst (io_ReadAll (Reader e) []) = (b, Some err)"
  shows "fst (Entry_String e) = '''' \<and> Entry_s (snd (Entry_String e)) = Entry_s e"
  using assms by (auto simp: Entry_String_def split: prod.splits option.splits)

theorem Entry_String_drain_error_witness:
  "\<not> validString
       \<lparr>Reader = \<lparr>script = [(''ab'', None), (''c'', Some (TransportError ''reset''))], reads = 0\<rparr>,
        validString = False, Entry_s = ''''\<rparr>
   \<and> fst (io_ReadAll (Reader
       \<lparr>Reader = \<lparr>script = [(''ab'', None), (''c'', Some (TransportError ''reset''))], reads = 0\<rparr>,
        validString = False, Entry_s = ''''\<rparr>) []) = (''abc'', Some (TransportError ''reset''))
   \<and> fst (Entry_String
       \<lparr>Reader = \<lparr>script = [(''ab'', None), (''c'', Some (TransportError ''reset''))], reads = 0\<rparr>,
        validString = False, Entry_s = ''''\<rparr>) = ''''"
  using Entry_String_drain_error
    [of "\<lparr>Reader = \<lparr>script = [(''ab'', None), (''c'', Some (TransportError ''reset''))], reads = 0\<rparr>,
          validString = False, Entry_s = ''''\<rparr>" "''abc''" "TransportError ''reset''"]
  by (simp add: io_ReadAll_eval io_EOF_def)

text \<open>
  Claim C9: when the first call of \<open>String\<close> ends with a read error, nothing is cached:
  the call returns the empty string, the valid-string flag stays false, the cached
  string is untouched, and a following call of \<open>String\<close> reads the stream again.
\<close>

theorem Entry_String_failure_not_cached:
  assumes "\<not> validString e"
    and "snd (fst (io_ReadAll (Reader e) [])) = Some err"
  shows "fst (Entry_String e) = '''' \<and>
         \<not> validString (snd (Entry_String e)) \<and>
         Entry_s (snd (Entry_String e)) = Entry_s e \<and>
         reads (Reader (snd (Entry_String e)))
           < reads (Reader (snd (Entry_String (snd (Entry_String e)))))"
proof -
  obtain b r' where R: "io_ReadAll (Reader e) [] = ((b, Some err), r')"
    using assms(2) by (metis prod.collapse)
  let ?e1 = "e\<lparr>Reader := r'\<rparr>"
  have E: "Entry_String e = ('''', ?e1)"
    using assms(1) R by (simp add: Entry_String_def)
  have V: "\<not> validString ?e1"
    using assms(1) by simp
  have "reads r' < reads (snd (io_ReadAll r' []))"
    by (rule io_ReadAll_reads)
  moreover have "Reader (snd (Entry_String ?e1)) = snd (io_ReadAll r' [])"
    using V by (auto simp: Entry_String_def split: prod.splits option.splits)
  ultimately show ?thesis
    using E V by simp
qed

theorem Entry_String_failure_not_cached_witness:
  "\<not> validString
       \<lparr>Reader = \<lparr>script = [(''x'', Some (TransportError ''timeout''))], reads = 0\<rparr>,
        validString = False, Entry_s = ''''\<rparr>
   \<and> snd (fst (io_ReadAll (Reader
       \<lparr>Reader = \<lparr>script = [(''x'', Some (TransportError ''timeout''))], reads = 0\<rparr>,
        validString = False, Entry_s = ''''\<rparr>) [])) = Some (TransportError ''timeout'')
   \<and> \<not> validString (snd (Entry_String
       \<lparr>Reader = \<lparr>script = [(''x'', Some (TransportError ''timeout''))], reads = 0\<rparr>,
        validString = False, Entry_s = ''''\<rparr>))
   \<and> reads (Reader (snd (Entry_String
       \<lparr>Reader = \<lparr>script = [(''x'', Some (TransportError ''timeout''))], reads = 0\<rparr>,
        validString = False, Entry_s = ''''\<rparr>)))
       < reads (Reader (snd (Entry_String (snd (Entry_String
       \<lparr>Reader = \<lparr>script = [(''x'', Some (TransportError ''timeout''))], reads = 0\<rparr>,
        validString = False, Entry_s = ''''\<rparr>)))))"
  using Entry_String_failure_not_cached
    [of "\<lparr>Reader = \<lparr>script = [(''x'', Some (TransportError ''timeout''))], reads = 0\<rparr>,
          validString = False, Entry_s = ''''\<rparr>" "TransportError ''timeout''"]
  by (simp add: io_ReadAll_eval io_EOF_def)

section \<open>Round trip through the idealized host\<close>

text \<open>
  Claim C2: on the idealized host, for every key \<open>k\<close> and every value stream that
  drains to the bytes \<open>v\<close>, Insert under \<open>k\<close> succeeds, the following Lookup of \<open>k\<close>
  succeeds, and the Entry it returns holds exactly \<open>v\<close>.
\<close>

theorem kvstore_Insert_Lookup_roundtrip:
  assumes "fst (io_ReadAll val []) = (v, None)"
  shows "\<exists>h' e h''.
           kvstore_Insert ideal_kv (Some st) k val h = (Return None, h') \<and>
           kvstore_Lookup ideal_kv (Some st) k h' = (Return (Some e, None), h'') \<and>
           fst (Entry_String e) = v"
proof -
  have I: "kvstore_Insert ideal_kv (Some st) k val h = (Return None, h(k \<mapsto> v))"
    using assms by (auto simp: kvstore_Insert_def ideal_kv_def split: prod.splits option.splits)
  let ?e = "\<lparr>Reader = NewReader v, validString = False, Entry_s = ''''\<rparr>"
  have L: "kvstore_Lookup ideal_kv (Some st) k (h(k \<mapsto> v)) = (Return (Some ?e, None), h(k \<mapsto> v))"
    by (simp add: kvstore_Lookup_def ideal_kv_def)
  have "fst (io_ReadAll (NewReader v) []) = (v, None)"
    using io_ReadAll_NewReader [of v "[]"] by simp
  then have S: "fst (Entry_String ?e) = v"
    by (auto simp: Entry_String_def split: prod.splits option.splits)
  from I L S show ?thesis by blast
qed

theorem kvstore_Insert_Lookup_roundtrip_witness:
  "fst (io_ReadAll (NewReader ''cat'') []) = (''cat'', None)
   \<and> (\<exists>h' e h''.
        kvstore_Insert ideal_kv (Some \<lparr>kvstore = 0\<rparr>) ''animal'' (NewReader ''cat'') Map.empty
          = (Return None, h') \<and>
        kvstore_Lookup ideal_kv (Some \<lparr>kvstore = 0\<rparr>) ''animal'' h' = (Return (Some e, None), h'') \<and>
        fst (Entry_String e) = ''cat'')"
  using kvstore_Insert_Lookup_roundtrip
    [of "NewReader ''cat''" "''cat''" "\<lparr>kvstore = 0\<rparr>" "''animal''" Map.empty]
  by (simp add: NewReader_def io_ReadAll_eval)

section \<open>The nil receiver of \<open>configstore.Store.Get\<close>\<close>

text \<open>
  Claim C3: \<open>Get\<close> on a nil Store returns the empty string and the key-not-found
  error for every key; it does not panic, and it makes no host call (the host is left
  as it was, whatever the ABI would do).
\<close>

theorem configstore_Get_nil_receiver:
  "configstore_Get D None key h = (Return ('''', Some configstore_ErrKeyNotFound), h)"
  by (simp add: configstore_Get_def)

lemmas spec_tables = kvstore_Open_table_def kvstore_Lookup_table_def kvstore_Insert_table_def
  kvstore_Delete_table_def configstore_Open_table_def configstore_Get_table_def

section \<open>Error classification\<close>

text \<open>
  Claim C1, as stated: every failing operation of both stores turns a recognized host
  status that its table lacks into the unexpected error. It fails for the config
  store: \<open>Get\<close> on a host that reports \<open>INVAL\<close>, a recognized status absent from the
  table of \<open>Get\<close>, returns the host error itself, which wraps nothing and is not
  what the stated scheme gives.
\<close>

theorem configstore_Get_unmapped_status_counterexample:
  "configstore_Get (failing_dict (FastlyError FastlyStatusInval)) (Some \<lparr>abiDict = 0\<rparr>) ''key'' ()
     = (Return ('''', Some (FastlyError FastlyStatusInval)), ())
   \<and> IsFastlyError (FastlyError FastlyStatusInval) = (FastlyStatusInval, True)
   \<and> configstore_Get_table FastlyStatusInval = None
   \<and> errors_Unwrap (FastlyError FastlyStatusInval) = None
   \<and> FastlyError FastlyStatusInval
       \<noteq> spec_classify configstore_Get_table kvstore_ErrUnexpected (FastlyError FastlyStatusInval)"
  by (simp add: configstore_Get_def failing_dict_def configstore_Get_table_def spec_classify_def)

text \<open>
  Claim C1, amended: the four failing operations of the KV store (Open, Lookup,
  Insert, Delete) follow the stated scheme: a recognized host status goes through the
  operation's table, a recognized status the table lacks becomes an error that wraps
  the unexpected error and whose message ends with the status, and an error that is
  no host status is returned unchanged. The two failing operations of the config
  store (Open, Get) map a recognized status through their table and return every
  other error unchanged, a recognized status the table lacks included.
\<close>

theorem classification_scheme:
  "(OpenKVStore F name h = (Inl err, h') \<longrightarrow>
      kvstore_Open F name h =
        ((None, Some (spec_classify kvstore_Open_table kvstore_ErrUnexpected err)), h'))
   \<and> (KVStore_Lookup F (kvstore st) key h = (Inl err, h') \<longrightarrow>
      kvstore_Lookup F (Some st) key h =
        (Return (None, Some (spec_classify kvstore_Lookup_table kvstore_ErrUnexpected err)), h'))
   \<and> (KVStore_Insert F (kvstore st) key val h = (Some err, h') \<longrightarrow>
      kvstore_Insert F (Some st) key val h =
        (Return (Some (spec_classify kvstore_Insert_table kvstore_ErrUnexpected err)), h'))
   \<and> (KVStore_Delete F (kvstore st) key h = (Some err, h') \<longrightarrow>
      kvstore_Delete F (Some st) key h =
        (Return (Some (spec_classify kvstore_Delete_table kvstore_ErrUnexpected err)), h'))
   \<and> (OpenDictionary D name g = (Inl err, g') \<longrightarrow>
      configstore_Open D name g =
        ((None, Some (spec_classify_verbatim configstore_Open_table err)), g'))
   \<and> (Dictionary_Get D (abiDict cs) key g = (Inl err, g') \<longrightarrow>
      configstore_Get D (Some cs) key g =
        (Return ('''', Some (spec_classify_verbatim configstore_Get_table err)), g'))
   \<and> (table status = None \<longrightarrow>
      spec_classify table kvstore_ErrUnexpected (FastlyError status)
        = Errorf_w kvstore_ErrUnexpected status
      \<and> errors_Is (spec_classify table kvstore_ErrUnexpected (FastlyError status))
           kvstore_ErrUnexpected
      \<and> Error T (spec_classify table kvstore_ErrUnexpected (FastlyError status))
           = ''kvstore: unexpected error ('' @ FastlyStatus_String T status @ '')''
      \<and> spec_classify_verbatim table (FastlyError status) = FastlyError status)
   \<and> (snd (IsFastlyError raw) = False \<longrightarrow>
      spec_classify table unexpected raw = raw \<and> spec_classify_verbatim table raw = raw)"
proof (intro conjI impI)
  assume "OpenKVStore F name h = (Inl err, h')"
  then show "kvstore_Open F name h =
        ((None, Some (spec_classify kvstore_Open_table kvstore_ErrUnexpected err)), h')"
    by (cases err) (simp_all add: kvstore_Open_def spec_classify_def kvstore_Open_table_def)
next
  assume "KVStore_Lookup F (kvstore st) key h = (Inl err, h')"
  then show "kvstore_Lookup F (Some st) key h =
        (Return (None, Some (spec_classify kvstore_Lookup_table kvstore_ErrUnexpected err)), h')"
    by (cases err) (simp_all add: kvstore_Lookup_def spec_classify_def kvstore_Lookup_table_def)
next
  assume "KVStore_Insert F (kvstore st) key val h = (Some err, h')"
  then show "kvstore_Insert F (Some st) key val h =
        (Return (Some (spec_classify kvstore_Insert_table kvstore_ErrUnexpected err)), h')"
    by (cases err) (simp_all add: kvstore_Insert_def spec_classify_def kvstore_Insert_table_def)
next
  assume "KVStore_Delete F (kvstore st) key h = (Some err, h')"
  then show "kvstore_Delete F (Some st) key h =
        (Return (Some (spec_classify kvstore_Delete_table kvstore_ErrUnexpected err)), h')"
    by (cases err) (simp_all add: kvstore_Delete_def spec_classify_def kvstore_Delete_table_def)
next
  assume "OpenDictionary D name g = (Inl err, g')"
  then show "configstore_Open D name g =
        ((None, Some (spec_classify_verbatim configstore_Open_table err)), g')"
    by (cases err)
       (simp_all add: configstore_Open_def spec_classify_verbatim_def configstore_Open_table_def)
next
  assume "Dictionary_Get D (abiDict cs) key g = (Inl err, g')"
  then show "configstore_Get D (Some cs) key g =
        (Return ('''', Some (spec_classify_verbatim configstore_Get_table err)), g')"
    by (cases err)
       (simp_all add: configstore_Get_def spec_classify_verbatim_def configstore_Get_table_def)
next
  assume "table status = None"
  then show "spec_classify table kvstore_ErrUnexpected (FastlyError status)
        = Errorf_w kvstore_ErrUnexpected status"
    by (simp add: spec_classify_def)
next
  assume "table status = None"
  then show "errors_Is (spec_classify table kvstore_ErrUnexpected (FastlyError status))
           kvstore_ErrUnexpected"
    by (simp add: spec_classify_def kvstore_ErrUnexpected_def)
next
  assume "table status = None"
  then show "Error T (spec_classify table kvstore_ErrUnexpected (FastlyError status))
           = ''kvstore: unexpected error ('' @ FastlyStatus_String T status @ '')''"
    by (simp add: spec_classify_def kvstore_ErrUnexpected_def)
next
  assume "table status = None"
  then show "spec_classify_verbatim table (FastlyError status) = FastlyError status"
    by (simp add: spec_classify_verbatim_def)
next
  assume "snd (IsFastlyError raw) = False"
  then show "spec_classify table unexpected raw = raw"
    by (cases raw) (simp_all add: spec_classify_def)
next
  assume "snd (IsFastlyError raw) = False"
  then show "spec_classify_verbatim table raw = raw"
    by (cases raw) (simp_all add: spec_classify_verbatim_def)
qed

theorem classification_scheme_witness:
  "OpenKVStore (failing_kv (FastlyError (FastlyStatusCode 42))) ''store'' ()
     = (Inl (FastlyError (FastlyStatusCode 42)), ())
   \<and> kvstore_Open (failing_kv (FastlyError (FastlyStatusCode 42))) ''store'' ()
       = ((None, Some (Errorf_w kvstore_ErrUnexpected (FastlyStatusCode 42))), ())
   \<and> kvstore_Lookup (failing_kv (FastlyError (FastlyStatusCode 42))) (Some \<lparr>kvstore = 0\<rparr>) ''key'' ()
       = (Return (None, Some (Errorf_w kvstore_ErrUnexpected (FastlyStatusCode 42))), ())
   \<and> kvstore_Insert (failing_kv (FastlyError (FastlyStatusCode 42))) (Some \<lparr>kvstore = 0\<rparr>) ''key''
         (NewReader ''cat'') ()
       = (Return (Some (Errorf_w kvstore_ErrUnexpected (FastlyStatusCode 42))), ())
   \<and> kvstore_Delete (failing_kv (FastlyError (FastlyStatusCode 42))) (Some \<lparr>kvstore = 0\<rparr>) ''key'' ()
       = (Return (Some (Errorf_w kvstore_ErrUnexpected (FastlyStatusCode 42))), ())
   \<and> configstore_Open (failing_dict (FastlyError (FastlyStatusCode 42))) ''store'' ()
       = ((None, Some (FastlyError (FastlyStatusCode 42))), ())
   \<and> configstore_Get (failing_dict (FastlyError (FastlyStatusCode 42))) (Some \<lparr>abiDict = 0\<rparr>) ''key'' ()
       = (Return ('''', Some (FastlyError (FastlyStatusCode 42))), ())
   \<and> kvstore_Lookup_table (FastlyStatusCode 42) = None
   \<and> Error \<lparr>FastlyStatus_String = (\<lambda>s. ''42''), FastlyError_Error = (\<lambda>s. ''fastly'')\<rparr>
        (Errorf_w kvstore_ErrUnexpected (FastlyStatusCode 42)) = ''kvstore: unexpected error (42)''
   \<and> snd (IsFastlyError (TransportError ''link down'')) = False
   \<and> spec_classify kvstore_Lookup_table kvstore_ErrUnexpected (TransportError ''link down'')
       = TransportError ''link down''"
  using classification_scheme
    [where F = "failing_kv (FastlyError (FastlyStatusCode 42))"
       and D = "failing_dict (FastlyError (FastlyStatusCode 42))"
       and err = "FastlyError (FastlyStatusCode 42)"
       and name = "''store''" and key = "''key''" and val = "NewReader ''cat''"
       and h = "()" and h' = "()" and g = "()" and g' = "()"
       and st = "\<lparr>kvstore = 0\<rparr>" and cs = "\<lparr>abiDict = 0\<rparr>"
       and table = kvstore_Lookup_table and status = "FastlyStatusCode 42"
       and T = "\<lparr>FastlyStatus_String = (\<lambda>s. ''42''), FastlyError_Error = (\<lambda>s. ''fastly'')\<rparr>"
       and raw = "TransportError ''link down''" and unexpected = kvstore_ErrUnexpected]
  by (simp add: failing_kv_def failing_dict_def spec_tables spec_classify_def
        spec_classify_verbatim_def)

text \<open>
  Claim C4, as stated: besides the four mapped statuses, any other failure of
  \<open>configstore.Open\<close> yields an Unexpected error, or the raw error when it is no host
  status. It fails on a host status outside the four: on status 42, a recognized
  status absent from the table of \<open>Open\<close>, the call returns the host error itself,
  which wraps nothing and is not what the scheme with an unexpected error gives.
\<close>

theorem configstore_Open_unmapped_status_counterexample:
  "configstore_Open (failing_dict (FastlyError (FastlyStatusCode 42))) ''cfg'' ()
     = ((None, Some (FastlyError (FastlyStatusCode 42))), ())
   \<and> IsFastlyError (FastlyError (FastlyStatusCode 42)) = (FastlyStatusCode 42, True)
   \<and> configstore_Open_table (FastlyStatusCode 42) = None
   \<and> errors_Unwrap (FastlyError (FastlyStatusCode 42)) = None
   \<and> FastlyError (FastlyStatusCode 42)
       \<noteq> spec_classify configstore_Open_table kvstore_ErrUnexpected
           (FastlyError (FastlyStatusCode 42))"
  by (simp add: configstore_Open_def failing_dict_def configstore_Open_table_def
        spec_classify_def)

text \<open>
  Claim C4, amended: for every store name, a failing \<open>configstore.Open\<close> maps \<open>BADF\<close>
  to store-not-found, \<open>NONE\<close> to store-name-empty, \<open>UNSUPPORTED\<close> to
  store-name-too-long and \<open>INVAL\<close> to store-name-invalid, four pairwise different
  errors; any other failure, a host status outside these four included, is returned
  as the host gave it.
\<close>

theorem configstore_Open_statuses:
  assumes "OpenDictionary D name h = (Inl err, h')"
  shows "(err = FastlyError FastlyStatusBadf \<longrightarrow>
            configstore_Open D name h = ((None, Some configstore_ErrStoreNotFound), h'))
       \<and> (err = FastlyError FastlyStatusNone \<longrightarrow>
            configstore_Open D name h = ((None, Some configstore_ErrStoreNameEmpty), h'))
       \<and> (err = FastlyError FastlyStatusUnsupported \<longrightarrow>
            configstore_Open D name h = ((None, Some configstore_ErrStoreNameTooLong), h'))
       \<and> (err = FastlyError FastlyStatusInval \<longrightarrow>
            configstore_Open D name h = ((None, Some configstore_ErrStoreNameInvalid), h'))
       \<and> (err \<notin> FastlyError ` {FastlyStatusBadf, FastlyStatusNone, FastlyStatusUnsupported,
                                FastlyStatusInval} \<longrightarrow>
            configstore_Open D name h = ((None, Some err), h'))
       \<and> distinct [configstore_ErrStoreNotFound, configstore_ErrStoreNameEmpty,
                    configstore_ErrStoreNameTooLong, configstore_ErrStoreNameInvalid]"
  using assms
  by (cases err) (auto simp: configstore_Open_def configstore_errs)

theorem configstore_Open_statuses_witness:
  "configstore_Open (failing_dict (FastlyError FastlyStatusBadf)) ''cfg'' ()
     = ((None, Some configstore_ErrStoreNotFound), ())
   \<and> configstore_Open (failing_dict (FastlyError FastlyStatusNone)) ''cfg'' ()
       = ((None, Some configstore_ErrStoreNameEmpty), ())
   \<and> configstore_Open (failing_dict (FastlyError FastlyStatusUnsupported)) ''cfg'' ()
       = ((None, Some configstore_ErrStoreNameTooLong), ())
   \<and> configstore_Open (failing_dict (FastlyError FastlyStatusInval)) ''cfg'' ()
       = ((None, Some configstore_ErrStoreNameInvalid), ())
   \<and> configstore_Open (failing_dict (FastlyError (FastlyStatusCode 42))) ''cfg'' ()
       = ((None, Some (FastlyError (FastlyStatusCode 42))), ())
   \<and> configstore_Open (failing_dict (TransportError ''link down'')) ''cfg'' ()
       = ((None, Some (TransportError ''link down'')), ())"
proof -
  have host: "OpenDictionary (failing_dict e) ''cfg'' () = (Inl e, ())" for e
    by (simp add: failing_dict_def)
  have "configstore_Open (failing_dict (FastlyError FastlyStatusBadf)) ''cfg'' ()
     = ((None, Some configstore_ErrStoreNotFound), ())"
    using configstore_Open_statuses [OF host [of "FastlyError FastlyStatusBadf"]] by simp
  moreover have "configstore_Open (failing_dict (FastlyError FastlyStatusNone)) ''cfg'' ()
       = ((None, Some configstore_ErrStoreNameEmpty), ())"
    using configstore_Open_statuses [OF host [of "FastlyError FastlyStatusNone"]] by simp
  moreover have "configstore_Open (failing_dict (FastlyError FastlyStatusUnsupported)) ''cfg'' ()
       = ((None, Some configstore_ErrStoreNameTooLong), ())"
    using configstore_Open_statuses [OF host [of "FastlyError FastlyStatusUnsupported"]] by simp
  moreover have "configstore_Open (failing_dict (FastlyError FastlyStatusInval)) ''cfg'' ()
       = ((None, Some configstore_ErrStoreNameInvalid), ())"
    using configstore_Open_statuses [OF host [of "FastlyError FastlyStatusInval"]] by simp
  moreover have "configstore_Open (failing_dict (FastlyError (FastlyStatusCode 42))) ''cfg'' ()
       = ((None, Some (FastlyError (FastlyStatusCode 42))), ())"
    using configstore_Open_statuses [OF host [of "FastlyError (FastlyStatusCode 42)"]] by simp
  moreover have "configstore_Open (failing_dict (TransportError ''link down'')) ''cfg'' ()
       = ((None, Some (TransportError ''link down'')), ())"
    using configstore_Open_statuses [OF host [of "TransportError ''link down''"]] by simp
  ultimately show ?thesis
    by simp
qed

text \<open>
  Claim C5: for every store name, \<open>kvstore.Open\<close> returns store-not-found when the
  host reports \<open>INVAL\<close>, an error wrapping the unexpected error and carrying the
  status for any other host status, and the host's error unchanged when it is no host
  status; when the host call succeeds it returns a non-nil Store and a nil error.
\<close>

theorem kvstore_Open_statuses:
  "(OpenKVStore F name h = (Inl (FastlyError FastlyStatusInval), h') \<longrightarrow>
      kvstore_Open F name h = ((None, Some kvstore_ErrStoreNotFound), h'))
   \<and> (OpenKVStore F name h = (Inl (FastlyError status), h') \<and> status \<noteq> FastlyStatusInval \<longrightarrow>
      kvstore_Open F name h = ((None, Some (Errorf_w kvstore_ErrUnexpected status)), h')
      \<and> errors_Is (Errorf_w kvstore_ErrUnexpected status) kvstore_ErrUnexpected
      \<and> Error T (Errorf_w kvstore_ErrUnexpected status)
          = ''kvstore: unexpected error ('' @ FastlyStatus_String T status @ '')'')
   \<and> (OpenKVStore F name h = (Inl err, h') \<and> snd (IsFastlyError err) = False \<longrightarrow>
      kvstore_Open F name h = ((None, Some err), h'))
   \<and> (OpenKVStore F name h = (Inr handle, h') \<longrightarrow>
      kvstore_Open F name h = ((Some \<lparr>kvstore = handle\<rparr>, None), h'))"
  by (cases err) (auto simp: kvstore_Open_def kvstore_errs)

theorem kvstore_Open_statuses_witness:
  "kvstore_Open (failing_kv (FastlyError FastlyStatusInval)) ''store'' ()
     = ((None, Some kvstore_ErrStoreNotFound), ())
   \<and> kvstore_Open (failing_kv (FastlyError FastlyStatusBadf)) ''store'' ()
       = ((None, Some (Errorf_w kvstore_ErrUnexpected FastlyStatusBadf)), ())
   \<and> Error \<lparr>FastlyStatus_String = (\<lambda>s. ''3''), FastlyError_Error = (\<lambda>s. ''fastly'')\<rparr>
        (Errorf_w kvstore_ErrUnexpected FastlyStatusBadf) = ''kvstore: unexpected error (3)''
   \<and> kvstore_Open (failing_kv (TransportError ''link down'')) ''store'' ()
       = ((None, Some (TransportError ''link down'')), ())
   \<and> kvstore_Open ideal_kv ''store'' Map.empty = ((Some \<lparr>kvstore = 0\<rparr>, None), Map.empty)"
proof -
  have host: "OpenKVStore (failing_kv e) ''store'' () = (Inl e, ())" for e
    by (simp add: failing_kv_def)
  have ideal: "OpenKVStore ideal_kv ''store'' Map.empty = (Inr 0, Map.empty)"
    by (simp add: ideal_kv_def)
  have "kvstore_Open (failing_kv (FastlyError FastlyStatusInval)) ''store'' ()
     = ((None, Some kvstore_ErrStoreNotFound), ())"
    using kvstore_Open_statuses
      [where F = "failing_kv (FastlyError FastlyStatusInval)" and name = "''store''"
         and h = "()" and h' = "()" and status = FastlyStatusInval
         and err = "FastlyError FastlyStatusInval" and handle = 0
         and T = "\<lparr>FastlyStatus_String = (\<lambda>s. ''3''), FastlyError_Error = (\<lambda>s. ''fastly'')\<rparr>"]
      host [of "FastlyError FastlyStatusInval"]
    by simp
  moreover have "kvstore_Open (failing_kv (FastlyError FastlyStatusBadf)) ''store'' ()
       = ((None, Some (Errorf_w kvstore_ErrUnexpected FastlyStatusBadf)), ())
     \<and> Error \<lparr>FastlyStatus_String = (\<lambda>s. ''3''), FastlyError_Error = (\<lambda>s. ''fastly'')\<rparr>
        (Errorf_w kvstore_ErrUnexpected FastlyStatusBadf) = ''kvstore: unexpected error (3)''"
    using kvstore_Open_statuses
      [where F = "failing_kv (FastlyError FastlyStatusBadf)" and name = "''store''"
         and h = "()" and h' = "()" and status = FastlyStatusBadf
         and err = "FastlyError FastlyStatusBadf" and handle = 0
         and T = "\<lparr>FastlyStatus_String = (\<lambda>s. ''3''), FastlyError_Error = (\<lambda>s. ''fastly'')\<rparr>"]
      host [of "FastlyError FastlyStatusBadf"]
    by simp
  moreover have "kvstore_Open (failing_kv (TransportError ''link down'')) ''store'' ()
       = ((None, Some (TransportError ''link down'')), ())"
    using kvstore_Open_statuses
      [where F = "failing_kv (TransportError ''link down'')" and name = "''store''"
         and h = "()" and h' = "()" and status = FastlyStatusOK
         and err = "TransportError ''link down''" and handle = 0
         and T = "\<lparr>FastlyStatus_String = (\<lambda>s. ''3''), FastlyError_Error = (\<lambda>s. ''fastly'')\<rparr>"]
      host [of "TransportError ''link down''"]
    by simp
  moreover have "kvstore_Open ideal_kv ''store'' Map.empty
       = ((Some \<lparr>kvstore = 0\<rparr>, None), Map.empty)"
    using kvstore_Open_statuses
      [where F = ideal_kv and name = "''store''"
         and h = Map.empty and h' = Map.empty and status = FastlyStatusOK
         and err = "TransportError ''link down''" and handle = 0
         and T = "\<lparr>FastlyStatus_String = (\<lambda>s. ''3''), FastlyError_Error = (\<lambda>s. ''fastly'')\<rparr>"]
      ideal
    by simp
  ultimately show ?thesis
    by simp
qed

text \<open>
  Claim C6: a failing \<open>Delete\<close> classifies as \<open>Lookup\<close> does: for every key, \<open>NONE\<close>
  gives key-not-found (which is not the unexpected error), \<open>INVAL\<close> gives
  invalid-key, any other host status gives an error wrapping the unexpected error, an
  error that is no host status is returned unchanged, and on the same host error
  \<open>Delete\<close> and \<open>Lookup\<close> return the same error.
\<close>

theorem kvstore_Delete_statuses:
  assumes "KVStore_Delete F (kvstore st) key h = (Some err, h')"
  shows "(err = FastlyError FastlyStatusNone \<longrightarrow>
            kvstore_Delete F (Some st) key h = (Return (Some kvstore_ErrKeyNotFound), h')
            \<and> \<not> errors_Is kvstore_ErrKeyNotFound kvstore_ErrUnexpected)
       \<and> (err = FastlyError FastlyStatusInval \<longrightarrow>
            kvstore_Delete F (Some st) key h = (Return (Some kvstore_ErrInvalidKey), h'))
       \<and> (err = FastlyError status \<and> status \<noteq> FastlyStatusNone \<and> status \<noteq> FastlyStatusInval \<longrightarrow>
            kvstore_Delete F (Some st) key h
              = (Return (Some (Errorf_w kvstore_ErrUnexpected status)), h')
            \<and> errors_Is (Errorf_w kvstore_ErrUnexpected status) kvstore_ErrUnexpected)
       \<and> (snd (IsFastlyError err) = False \<longrightarrow>
            kvstore_Delete F (Some st) key h = (Return (Some err), h'))
       \<and> (KVStore_Lookup G (kvstore st') key' g = (Inl err, g') \<longrightarrow>
            (\<exists>e. kvstore_Delete F (Some st) key h = (Return (Some e), h')
                 \<and> kvstore_Lookup G (Some st') key' g = (Return (None, Some e), g')))"
  using assms
  by (cases err) (auto simp: kvstore_Delete_def kvstore_Lookup_def kvstore_errs)

theorem kvstore_Delete_statuses_witness:
  "kvstore_Delete ideal_kv (Some \<lparr>kvstore = 0\<rparr>) ''missing'' Map.empty
     = (Return (Some kvstore_ErrKeyNotFound), Map.empty)
   \<and> kvstore_Lookup ideal_kv (Some \<lparr>kvstore = 0\<rparr>) ''missing'' Map.empty
       = (Return (None, Some kvstore_ErrKeyNotFound), Map.empty)
   \<and> kvstore_Delete (failing_kv (FastlyError FastlyStatusInval)) (Some \<lparr>kvstore = 0\<rparr>) ''key'' ()
       = (Return (Some kvstore_ErrInvalidKey), ())
   \<and> kvstore_Delete (failing_kv (FastlyError FastlyStatusBadf)) (Some \<lparr>kvstore = 0\<rparr>) ''key'' ()
       = (Return (Some (Errorf_w kvstore_ErrUnexpected FastlyStatusBadf)), ())
   \<and> kvstore_Delete (failing_kv (TransportError ''link down'')) (Some \<lparr>kvstore = 0\<rparr>) ''key'' ()
       = (Return (Some (TransportError ''link down'')), ())"
proof -
  have del: "KVStore_Delete (failing_kv e) (kvstore \<lparr>kvstore = 0\<rparr>) ''key'' () = (Some e, ())" for e
    by (simp add: failing_kv_def)
  have ideal_del: "KVStore_Delete ideal_kv (kvstore \<lparr>kvstore = 0\<rparr>) ''missing'' Map.empty
      = (Some (FastlyError FastlyStatusNone), Map.empty)"
    by (simp add: ideal_kv_def)
  have ideal_look: "KVStore_Lookup ideal_kv (kvstore \<lparr>kvstore = 0\<rparr>) ''missing'' Map.empty
      = (Inl (FastlyError FastlyStatusNone), Map.empty)"
    by (simp add: ideal_kv_def)
  have "kvstore_Delete ideal_kv (Some \<lparr>kvstore = 0\<rparr>) ''missing'' Map.empty
     = (Return (Some kvstore_ErrKeyNotFound), Map.empty)
   \<and> kvstore_Lookup ideal_kv (Some \<lparr>kvstore = 0\<rparr>) ''missing'' Map.empty
       = (Return (None, Some kvstore_ErrKeyNotFound), Map.empty)"
    using kvstore_Delete_statuses
      [OF ideal_del, where status = FastlyStatusNone and G = ideal_kv
         and st' = "\<lparr>kvstore = 0\<rparr>" and key' = "''missing''" and g = Map.empty
         and g' = Map.empty]
      ideal_look
    by auto
  moreover have "kvstore_Delete (failing_kv (FastlyError FastlyStatusInval))
         (Some \<lparr>kvstore = 0\<rparr>) ''key'' ()
       = (Return (Some kvstore_ErrInvalidKey), ())"
    using kvstore_Delete_statuses
      [OF del [of "FastlyError FastlyStatusInval"], where status = FastlyStatusInval
         and G = "failing_kv (FastlyError FastlyStatusInval)"
         and st' = "\<lparr>kvstore = 0\<rparr>" and key' = "''key''" and g = "()" and g' = "()"]
    by simp
  moreover have "kvstore_Delete (failing_kv (FastlyError FastlyStatusBadf))
         (Some \<lparr>kvstore = 0\<rparr>) ''key'' ()
       = (Return (Some (Errorf_w kvstore_ErrUnexpected FastlyStatusBadf)), ())"
    using kvstore_Delete_statuses
      [OF del [of "FastlyError FastlyStatusBadf"], where status = FastlyStatusBadf
         and G = "failing_kv (FastlyError FastlyStatusBadf)"
         and st' = "\<lparr>kvstore = 0\<rparr>" and key' = "''key''" and g = "()" and g' = "()"]
    by simp
  moreover have "kvstore_Delete (failing_kv (TransportError ''link down''))
         (Some \<lparr>kvstore = 0\<rparr>) ''key'' ()
       = (Return (Some (TransportError ''link down'')), ())"
    using kvstore_Delete_statuses
      [OF del [of "TransportError ''link down''"], where status = FastlyStatusOK
         and G = "failing_kv (TransportError ''link down'')"
         and st' = "\<lparr>kvstore = 0\<rparr>" and key' = "''key''" and g = "()" and g' = "()"]
    by simp
  ultimately show ?thesis
    by simp
qed

text \<open>
  Claim C10: the config store has no unexpected error. A failing \<open>Open\<close> or \<open>Get\<close>
  returns one of the package's own errors for a status in its case list and the
  host's error itself in every other case, a recognized status outside the list
  included (\<open>INVAL\<close> in \<open>Get\<close>); nothing else is ever returned.
\<close>

theorem configstore_unlisted_verbatim:
  "(OpenDictionary D name h = (Inl err, h') \<and> IsFastlyError err = (status, ok)
      \<and> \<not> (ok \<and> status \<in> {FastlyStatusBadf, FastlyStatusNone, FastlyStatusUnsupported,
                              FastlyStatusInval}) \<longrightarrow>
      configstore_Open D name h = ((None, Some err), h'))
   \<and> (Dictionary_Get D (abiDict st) key h = (Inl err, h') \<and> IsFastlyError err = (status, ok)
      \<and> \<not> (ok \<and> status \<in> {FastlyStatusBadf, FastlyStatusNone}) \<longrightarrow>
      configstore_Get D (Some st) key h = (Return ('''', Some err), h'))
   \<and> (Dictionary_Get D (abiDict st) key h = (Inl (FastlyError FastlyStatusInval), h') \<longrightarrow>
      configstore_Get D (Some st) key h = (Return ('''', Some (FastlyError FastlyStatusInval)), h'))
   \<and> (OpenDictionary D name h = (Inl err, h') \<longrightarrow>
      (\<exists>e. configstore_Open D name h = ((None, Some e), h')
           \<and> e \<in> {configstore_ErrStoreNotFound, configstore_ErrStoreNameEmpty,
                   configstore_ErrStoreNameTooLong, configstore_ErrStoreNameInvalid, err}))
   \<and> (Dictionary_Get D (abiDict st) key h = (Inl err, h') \<longrightarrow>
      (\<exists>e. configstore_Get D (Some st) key h = (Return ('''', Some e), h')
           \<and> e \<in> {configstore_ErrStoreNotFound, configstore_ErrKeyNotFound, err}))"
  by (cases err) (auto simp: configstore_Open_def configstore_Get_def)

theorem configstore_unlisted_verbatim_witness:
  "IsFastlyError (FastlyError (FastlyStatusCode 42)) = (FastlyStatusCode 42, True)
   \<and> configstore_Open (failing_dict (FastlyError (FastlyStatusCode 42))) ''cfg'' ()
       = ((None, Some (FastlyError (FastlyStatusCode 42))), ())
   \<and> configstore_Get (failing_dict (FastlyError (FastlyStatusCode 42))) (Some \<lparr>abiDict = 0\<rparr>) ''key'' ()
       = (Return ('''', Some (FastlyError (FastlyStatusCode 42))), ())
   \<and> configstore_Get (failing_dict (FastlyError FastlyStatusInval)) (Some \<lparr>abiDict = 0\<rparr>) ''key'' ()
       = (Return ('''', Some (FastlyError FastlyStatusInval)), ())
   \<and> configstore_Get (failing_dict (TransportError ''link down'')) (Some \<lparr>abiDict = 0\<rparr>) ''key'' ()
       = (Return ('''', Some (TransportError ''link down'')), ())"
proof -
  have opn: "OpenDictionary (failing_dict e) ''cfg'' () = (Inl e, ())" for e
    by (simp add: failing_dict_def)
  have get: "Dictionary_Get (failing_dict e) (abiDict \<lparr>abiDict = 0\<rparr>) ''key'' () = (Inl e, ())" for e
    by (simp add: failing_dict_def)
  have "configstore_Open (failing_dict (FastlyError (FastlyStatusCode 42))) ''cfg'' ()
       = ((None, Some (FastlyError (FastlyStatusCode 42))), ())
     \<and> configstore_Get (failing_dict (FastlyError (FastlyStatusCode 42)))
          (Some \<lparr>abiDict = 0\<rparr>) ''key'' ()
       = (Return ('''', Some (FastlyError (FastlyStatusCode 42))), ())"
    using configstore_unlisted_verbatim
      [where D = "failing_dict (FastlyError (FastlyStatusCode 42))" and name = "''cfg''"
         and key = "''key''" and st = "\<lparr>abiDict = 0\<rparr>" and h = "()" and h' = "()"
         and err = "FastlyError (FastlyStatusCode 42)" and status = "FastlyStatusCode 42"
         and ok = True]
      opn [of "FastlyError (FastlyStatusCode 42)"] get [of "FastlyError (FastlyStatusCode 42)"]
    by simp
  moreover have "configstore_Get (failing_dict (FastlyError FastlyStatusInval))
          (Some \<lparr>abiDict = 0\<rparr>) ''key'' ()
       = (Return ('''', Some (FastlyError FastlyStatusInval)), ())"
    using configstore_unlisted_verbatim
      [where D = "failing_dict (FastlyError FastlyStatusInval)" and name = "''cfg''"
         and key = "''key''" and st = "\<lparr>abiDict = 0\<rparr>" and h = "()" and h' = "()"
         and err = "FastlyError FastlyStatusInval" and status = FastlyStatusInval
         and ok = True]
      get [of "FastlyError FastlyStatusInval"]
    by simp
  moreover have "configstore_Get (failing_dict (TransportError ''link down''))
          (Some \<lparr>abiDict = 0\<rparr>) ''key'' ()
       = (Return ('''', Some (TransportError ''link down'')), ())"
    using configstore_unlisted_verbatim
      [where D = "failing_dict (TransportError ''link down'')" and name = "''cfg''"
         and key = "''key''" and st = "\<lparr>abiDict = 0\<rparr>" and h = "()" and h' = "()"
         and err = "TransportError ''link down''" and status = FastlyStatusOK
         and ok = False]
      get [of "TransportError ''link down''"]
    by simp
  ultimately show ?thesis
    by simp
qed

end
